theory Spec2Isabelle
  imports Complex_Main "HOL-Library.Sublist"
begin

section \<open>JavaScript numbers\<close>

text \<open>
  A JavaScript number is an IEEE 754 double: a finite value, given here by the rational
  number it stands for, the negative zero, an infinity, or \<^verbatim>\<open>NaN\<close>. \<open>Fin 0\<close> is the
  positive zero. The finite doubles are zero and the numbers \<open>m * 2^e\<close> with an integer
  \<open>m\<close> of magnitude below \<open>2^53\<close> and \<open>-1074 \<le> e \<le> 971\<close>.
\<close>

datatype jsnum = Fin rat | NegZero | PosInf | NegInf | NaN

definition pow2 :: "int \<Rightarrow> rat" where
  "pow2 e = (if 0 \<le> e then 2 ^ nat e else 1 / 2 ^ nat (- e))"

definition is_double :: "rat \<Rightarrow> bool" where
  "is_double q =
     (\<exists>e \<in> {- 1074 .. 971}.
        rat_of_int \<lfloor>q / pow2 e\<rfloor> = q / pow2 e \<and> \<bar>q / pow2 e\<bar> < 2 ^ 53)"

section \<open>JavaScript values\<close>

text \<open>
  The dashboard of \<^verbatim>\<open>src/App.jsx\<close> keeps plain JavaScript values in its React state
  and sends and receives JSON. A value is \<^verbatim>\<open>undefined\<close>, \<^verbatim>\<open>null\<close>, a boolean, a number,
  a string, an array, or a plain object given by its own properties (each key once, as
  \<^verbatim>\<open>JSON.parse\<close> builds them).
\<close>

datatype jsval =
    Undefined
  | Null
  | JBool bool
  | JNum jsnum
  | JStr string
  | Arr "jsval list"
  | Obj "(string \<times> jsval) list"

section \<open>Errors\<close>

text \<open>
  What JavaScript throws is an error object with a message. The messages of the errors
  that the runtime itself raises (a \<^verbatim>\<open>TypeError\<close> of a property read or of a conversion,
  a \<^verbatim>\<open>RangeError\<close>, a rejected \<^verbatim>\<open>fetch\<close>, a \<^verbatim>\<open>SyntaxError\<close> of \<^verbatim>\<open>r.json()\<close>) are the
  engine's own; the model carries them as data.
\<close>

datatype js_error = Error string | TypeError string | RangeError string | SyntaxError string

fun message :: "js_error \<Rightarrow> string" where
  "message (Error m) = m"
| "message (TypeError m) = m"
| "message (RangeError m) = m"
| "message (SyntaxError m) = m"

section \<open>The engine\<close>

text \<open>
  Three things that the program leaves to the JavaScript engine are parameters of the
  model.
  \<^item> \<open>round_double\<close>: the double that an addition returns when the exact sum is not a
    double (round to nearest, ties to even; an infinity on overflow).
  \<^item> \<open>number_to_string\<close>: the text of a number in a template literal (\<^verbatim>\<open>1.5\<close>,
    \<^verbatim>\<open>1e+21\<close>, \<^verbatim>\<open>NaN\<close>).
  \<^item> \<open>resource_error\<close>: the error that the engine throws when it has not the resources to
    convert a value to text in a template literal, and \<open>None\<close> when it has them. The
    conversion of an array calls itself on the elements, and V8 throws the \<^verbatim>\<open>RangeError\<close>
    \<open>Maximum call stack size exceeded\<close> on an array nested some thousand levels deep.
  Every theorem below holds for every engine.
\<close>

record engine =
  round_double :: "rat \<Rightarrow> jsnum"
  number_to_string :: "jsnum \<Rightarrow> string"
  resource_error :: "jsval \<Rightarrow> js_error option"

text \<open>
  The sum \<^verbatim>\<open>x + y\<close> of two numbers. \<^verbatim>\<open>NaN\<close> is absorbing, the two infinities add up to
  \<^verbatim>\<open>NaN\<close>, anything else and an infinity to that infinity. The negative zero is neutral
  (and \<^verbatim>\<open>-0 + 0\<close> is the positive zero). Two finite numbers add up to their exact sum
  when that is a double, a zero sum being the positive zero, and to the rounded sum
  otherwise.
\<close>

fun js_add :: "engine \<Rightarrow> jsnum \<Rightarrow> jsnum \<Rightarrow> jsnum" where
  "js_add eng NaN y = NaN"
| "js_add eng x NaN = NaN"
| "js_add eng PosInf NegInf = NaN"
| "js_add eng NegInf PosInf = NaN"
| "js_add eng PosInf y = PosInf"
| "js_add eng x PosInf = PosInf"
| "js_add eng NegInf y = NegInf"
| "js_add eng x NegInf = NegInf"
| "js_add eng NegZero y = y"
| "js_add eng x NegZero = x"
| "js_add eng (Fin a) (Fin b) =
     (if is_double (a + b) then Fin (a + b) else round_double eng (a + b))"

section \<open>The page state\<close>

text \<open>
  One record per \<^verbatim>\<open>useState\<close> object of \<^verbatim>\<open>App\<close>. The workspace form's \<^verbatim>\<open>name\<close> is the
  field \<open>ws_name\<close> here, since the campaign has a \<^verbatim>\<open>name\<close> of its own.
\<close>

record step =
  day_offset :: jsnum
  subject :: string
  body :: string

record campaign_state =
  name :: string
  workspace_id :: jsval
  sequence :: "step list"

record workspace_state =
  ws_name :: string
  owner_email :: string

record prospect_state =
  email :: string
  first_name :: string
  last_name :: string
  company :: string
  title :: string

record gen_state =
  product :: string
  audience :: string
  tone :: string
  call_to_action :: string

record app_state =
  tab :: string
  status :: string
  ws :: workspace_state
  prospect :: prospect_state
  gen :: gen_state
  preview :: jsval
  loadingGen :: bool
  campaign :: campaign_state
  campaigns :: jsval
  loadingCampaigns :: bool

text \<open>The initial values handed to \<^verbatim>\<open>useState\<close> (lines 84 to 99).\<close>

definition initial :: app_state where
  "initial =
     \<lparr>tab = ''onboarding'',
      status = '''',
      ws = \<lparr>ws_name = '''', owner_email = ''''\<rparr>,
      prospect = \<lparr>email = '''', first_name = '''', last_name = '''', company = '''', title = ''''\<rparr>,
      gen = \<lparr>product = '''', audience = '''', tone = ''friendly'',
             call_to_action = ''Book a quick call?''\<rparr>,
      preview = Null,
      loadingGen = False,
      campaign = \<lparr>name = '''', workspace_id = JStr '''',
                  sequence = [\<lparr>day_offset = Fin 0, subject = '''', body = ''''\<rparr>]\<rparr>,
      campaigns = Arr [],
      loadingCampaigns = False\<rparr>"

text \<open>
  The state setters. \<^verbatim>\<open>setCampaign\<close> is always called with an updater function in the
  operations below, the others with the new value.
\<close>

definition setStatus :: "string \<Rightarrow> app_state \<Rightarrow> app_state" where
  "setStatus v s = s\<lparr>status := v\<rparr>"

definition setPreview :: "jsval \<Rightarrow> app_state \<Rightarrow> app_state" where
  "setPreview v s = s\<lparr>preview := v\<rparr>"

definition setLoadingGen :: "bool \<Rightarrow> app_state \<Rightarrow> app_state" where
  "setLoadingGen v s = s\<lparr>loadingGen := v\<rparr>"

definition setCampaign :: "(campaign_state \<Rightarrow> campaign_state) \<Rightarrow> app_state \<Rightarrow> app_state" where
  "setCampaign f s = s\<lparr>campaign := f (campaign s)\<rparr>"

definition setCampaigns :: "jsval \<Rightarrow> app_state \<Rightarrow> app_state" where
  "setCampaigns v s = s\<lparr>campaigns := v\<rparr>"

definition setLoadingCampaigns :: "bool \<Rightarrow> app_state \<Rightarrow> app_state" where
  "setLoadingCampaigns v s = s\<lparr>loadingCampaigns := v\<rparr>"

section \<open>Editing the sequence\<close>

text \<open>
  \<^verbatim>\<open>c.sequence.at(-1)\<close> is the last step, or \<^verbatim>\<open>undefined\<close> on the empty array; then
  \<^verbatim>\<open>?.day_offset\<close> is \<^verbatim>\<open>undefined\<close> as well and \<^verbatim>\<open>?? 0\<close> replaces it by 0. A step
  always has a number as its day offset, and \<^verbatim>\<open>??\<close> keeps every number, \<^verbatim>\<open>NaN\<close> too.
\<close>

definition at_last :: "'a list \<Rightarrow> 'a option" where
  "at_last xs = (if xs = [] then None else Some (last xs))"

definition addStep :: "engine \<Rightarrow> app_state \<Rightarrow> app_state" where
  "addStep eng =
     setCampaign (\<lambda>c. c\<lparr>sequence := sequence c @
        [\<lparr>day_offset =
            js_add eng (case at_last (sequence c) of None \<Rightarrow> Fin 0 | Some l \<Rightarrow> day_offset l)
              (Fin 2),
          subject = '''', body = ''''\<rparr>]\<rparr>)"

text \<open>
  \<^verbatim>\<open>c.sequence.filter((_, i) => i !== idx)\<close>: the callback sees each element with its
  index, counted from 0, and keeps the element when the index differs from \<open>idx\<close>. The
  argument is any integer; the indices are natural numbers.
\<close>

definition removeStep :: "int \<Rightarrow> app_state \<Rightarrow> app_state" where
  "removeStep idx =
     setCampaign (\<lambda>c. c\<lparr>sequence :=
        map snd (filter (\<lambda>(i, _). int i \<noteq> idx) (enumerate 0 (sequence c)))\<rparr>)"

section \<open>The backend client\<close>

text \<open>
  The decimal digits of a natural number: the text of \<^verbatim>\<open>${r.status}\<close>, the status of a
  response being a small non-negative integer.
\<close>

fun show_nat :: "nat \<Rightarrow> string" where
  "show_nat n =
     (if n < 10 then [''0123456789'' ! n]
      else show_nat (n div 10) @ [''0123456789'' ! (n mod 10)])"

declare show_nat.simps [simp del]

text \<open>
  The steps of the conversion to a string that a template literal applies to \<^verbatim>\<open>${v}\<close>.
  A number prints as the engine prints it. An array joins its elements with commas,
  \<^verbatim>\<open>null\<close> and \<^verbatim>\<open>undefined\<close> elements printing as nothing. A plain object prints through
  \<^verbatim>\<open>Object.prototype.toString\<close>, unless it has an own property \<^verbatim>\<open>toString\<close>: in a parsed
  JSON document that property is never a function, the inherited \<^verbatim>\<open>valueOf\<close> returns the
  object itself, and the conversion throws a \<^verbatim>\<open>TypeError\<close>.
\<close>

fun convert :: "engine \<Rightarrow> jsval \<Rightarrow> js_error + string"
and join_elems :: "engine \<Rightarrow> jsval list \<Rightarrow> js_error + string" where
  "convert eng Undefined = Inr ''undefined''"
| "convert eng Null = Inr ''null''"
| "convert eng (JBool b) = Inr (if b then ''true'' else ''false'')"
| "convert eng (JNum n) = Inr (number_to_string eng n)"
| "convert eng (JStr s) = Inr s"
| "convert eng (Arr xs) = join_elems eng xs"
| "convert eng (Obj kvs) =
     (if ''toString'' \<in> set (map fst kvs)
      then Inl (TypeError ''Cannot convert object to primitive value'')
      else Inr ''[object Object]'')"
| "join_elems eng [] = Inr []"
| "join_elems eng (x # xs) =
     (case (if x = Undefined \<or> x = Null then Inr [] else convert eng x) of
        Inl e \<Rightarrow> Inl e
      | Inr a \<Rightarrow>
          (if xs = [] then Inr a
           else (case join_elems eng xs of Inl e \<Rightarrow> Inl e | Inr b \<Rightarrow> Inr (a @ '','' @ b))))"

text \<open>
  The conversion as the engine runs it: it throws where the engine has not the resources
  for the value, and follows the steps above where it has.
\<close>

definition to_string :: "engine \<Rightarrow> jsval \<Rightarrow> js_error + string" where
  "to_string eng v =
     (case resource_error eng v of Some e \<Rightarrow> Inl e | None \<Rightarrow> convert eng v)"

text \<open>
  The values that the steps of the conversion never refuse: a string, a number, a boolean,
  \<^verbatim>\<open>null\<close>, \<^verbatim>\<open>undefined\<close>, an object without an own property \<^verbatim>\<open>toString\<close>, and an
  array of such values.
\<close>

fun plain :: "jsval \<Rightarrow> bool" where
  "plain (Obj kvs) = (''toString'' \<notin> set (map fst kvs))"
| "plain (Arr xs) = list_all plain xs"
| "plain v = True"

text \<open>
  The property read \<^verbatim>\<open>r.id\<close>: a \<^verbatim>\<open>TypeError\<close> on \<^verbatim>\<open>null\<close> and \<^verbatim>\<open>undefined\<close>, the own
  property of an object, and \<^verbatim>\<open>undefined\<close> where there is none (also on a string, a
  number, a boolean and an array, none of which has a property of that name).
\<close>

fun dot_id :: "jsval \<Rightarrow> js_error + jsval" where
  "dot_id Undefined = Inl (TypeError ''Cannot read properties of undefined (reading 'id')'')"
| "dot_id Null = Inl (TypeError ''Cannot read properties of null (reading 'id')'')"
| "dot_id (Obj kvs) = Inr (case map_of kvs ''id'' of None \<Rightarrow> Undefined | Some v \<Rightarrow> v)"
| "dot_id v = Inr Undefined"

text \<open>
  \<^verbatim>\<open>JSON.stringify\<close> on the values of this model: a member whose value is \<^verbatim>\<open>undefined\<close>
  is left out of its object, and an \<^verbatim>\<open>undefined\<close> array element is written \<^verbatim>\<open>null\<close>;
  \<^verbatim>\<open>NaN\<close> and the infinities are written \<^verbatim>\<open>null\<close>, and the negative zero \<^verbatim>\<open>0\<close>.
  The request keeps the document as a value; its text is the JSON notation of that value.
\<close>

fun JSON_stringify :: "jsval \<Rightarrow> jsval"
and stringify_elems :: "jsval list \<Rightarrow> jsval list"
and stringify_members :: "(string \<times> jsval) list \<Rightarrow> (string \<times> jsval) list" where
  "JSON_stringify (Arr xs) = Arr (stringify_elems xs)"
| "JSON_stringify (Obj kvs) = Obj (stringify_members kvs)"
| "JSON_stringify (JNum NaN) = Null"
| "JSON_stringify (JNum PosInf) = Null"
| "JSON_stringify (JNum NegInf) = Null"
| "JSON_stringify (JNum NegZero) = JNum (Fin 0)"
| "JSON_stringify v = v"
| "stringify_elems [] = []"
| "stringify_elems (x # xs) =
     (if x = Undefined then Null else JSON_stringify x) # stringify_elems xs"
| "stringify_members [] = []"
| "stringify_members ((k, v) # kvs) =
     (if v = Undefined then stringify_members kvs
      else (k, JSON_stringify v) # stringify_members kvs)"

text \<open>
  A request as \<^verbatim>\<open>fetch\<close> receives it, and what \<^verbatim>\<open>fetch\<close> answers: the promise rejects
  (a network failure), or it resolves to a response. Of a response the program reads
  \<^verbatim>\<open>status\<close>, \<^verbatim>\<open>ok\<close>, \<^verbatim>\<open>text()\<close> (\<open>None\<close> when that promise rejects) and \<^verbatim>\<open>json()\<close>
  (an error when the body does not parse). \<^verbatim>\<open>ok\<close> is true exactly for the statuses 200
  to 299. The backend is not part of the repository: it is a parameter, any function from
  requests to answers.
\<close>

record request =
  http_method :: string
  url :: string
  headers :: "(string \<times> string) list"
  payload :: "jsval option"

record response =
  http_status :: nat
  body_text :: "string option"
  body_json :: "js_error + jsval"

datatype fetch_result = Rejected js_error | Resolved response

type_synonym backend = "request \<Rightarrow> fetch_result"

definition ok :: "response \<Rightarrow> bool" where
  "ok r = (200 \<le> http_status r \<and> http_status r \<le> 299)"

text \<open>
  \<^verbatim>\<open>import.meta.env.VITE_BACKEND_URL || 'http://localhost:8000'\<close>. The environment value
  is a string or \<^verbatim>\<open>undefined\<close> (\<open>None\<close>); \<^verbatim>\<open>||\<close> takes its right operand when the left
  one is \<^verbatim>\<open>undefined\<close> or the empty string.
\<close>

definition baseUrl :: "string option \<Rightarrow> string" where
  "baseUrl env =
     (case env of
        None \<Rightarrow> ''http://localhost:8000''
      | Some v \<Rightarrow> if v = [] then ''http://localhost:8000'' else v)"

definition get_request :: "string option \<Rightarrow> string \<Rightarrow> request" where
  "get_request env path =
     \<lparr>http_method = ''GET'', url = baseUrl env @ path, headers = [], payload = None\<rparr>"

definition post_request :: "string option \<Rightarrow> string \<Rightarrow> jsval \<Rightarrow> request" where
  "post_request env path b =
     \<lparr>http_method = ''POST'', url = baseUrl env @ path,
      headers = [(''Content-Type'', ''application/json'')],
      payload = Some (JSON_stringify b)\<rparr>"

text \<open>
  \<^verbatim>\<open>get\<close> and \<^verbatim>\<open>post\<close> of \<^verbatim>\<open>useBackend\<close>: the request that was sent, and the parsed body
  or the error thrown.
\<close>

definition get :: "backend \<Rightarrow> string option \<Rightarrow> string \<Rightarrow> request \<times> (js_error + jsval)" where
  "get be env path =
     (let rq = get_request env path in
      (rq,
       case be rq of
         Rejected e \<Rightarrow> Inl e
       | Resolved r \<Rightarrow>
           if \<not> ok r
           then Inl (Error (''GET '' @ path @ '' failed: '' @ show_nat (http_status r)))
           else body_json r))"

definition post :: "backend \<Rightarrow> string option \<Rightarrow> string \<Rightarrow> jsval \<Rightarrow> request \<times> (js_error + jsval)" where
  "post be env path b =
     (let rq = post_request env path b in
      (rq,
       case be rq of
         Rejected e \<Rightarrow> Inl e
       | Resolved r \<Rightarrow>
           if \<not> ok r
           then (let msg = (case body_text r of None \<Rightarrow> [] | Some t \<Rightarrow> t) in
                 Inl (Error (''POST '' @ path @ '' failed: '' @ show_nat (http_status r) @
                             '' '' @ msg)))
           else body_json r))"

section \<open>The operations of the page\<close>

text \<open>The state objects as the JSON documents that \<^verbatim>\<open>post\<close> sends.\<close>

definition ws_json :: "workspace_state \<Rightarrow> jsval" where
  "ws_json w = Obj [(''name'', JStr (ws_name w)), (''owner_email'', JStr (owner_email w))]"

definition prospect_json :: "prospect_state \<Rightarrow> jsval" where
  "prospect_json p =
     Obj [(''email'', JStr (email p)), (''first_name'', JStr (first_name p)),
          (''last_name'', JStr (last_name p)), (''company'', JStr (company p)),
          (''title'', JStr (title p))]"

definition gen_json :: "gen_state \<Rightarrow> jsval" where
  "gen_json g =
     Obj [(''product'', JStr (product g)), (''audience'', JStr (audience g)),
          (''tone'', JStr (tone g)), (''call_to_action'', JStr (call_to_action g))]"

definition step_json :: "step \<Rightarrow> jsval" where
  "step_json t =
     Obj [(''day_offset'', JNum (day_offset t)), (''subject'', JStr (subject t)),
          (''body'', JStr (body t))]"

definition campaign_json :: "campaign_state \<Rightarrow> jsval" where
  "campaign_json c =
     Obj [(''name'', JStr (name c)), (''workspace_id'', workspace_id c),
          (''sequence'', Arr (map step_json (sequence c)))]"

text \<open>
  Each operation is a function of the backend, the environment value and the page state.
  It returns the requests it sent, in order, and the page state once its promise has
  settled. A statement after a throwing one in a \<^verbatim>\<open>try\<close> block does not run; the state
  changes made before the throw stay.
\<close>

definition loadCampaigns :: "backend \<Rightarrow> string option \<Rightarrow> app_state \<Rightarrow> request list \<times> app_state" where
  "loadCampaigns be env s =
     (let s1 = setLoadingCampaigns True s;
          (rq, res) = get be env ''/campaigns'';
          s2 = (case res of
                  Inr items \<Rightarrow> setCampaigns items s1
                | Inl e \<Rightarrow> setStatus (message e) s1)
      in ([rq], setLoadingCampaigns False s2))"

definition submitWorkspace ::
  "engine \<Rightarrow> backend \<Rightarrow> string option \<Rightarrow> app_state \<Rightarrow> request list \<times> app_state" where
  "submitWorkspace eng be env s =
     (let s1 = setStatus ''Creating workspace...'' s;
          (rq, res) = post be env ''/workspaces'' (ws_json (ws s));
          s2 = (case res of
                  Inl e \<Rightarrow> setStatus (message e) s1
                | Inr r \<Rightarrow>
                    (case dot_id r of
                       Inl e \<Rightarrow> setStatus (message e) s1
                     | Inr i \<Rightarrow>
                         (case to_string eng i of
                            Inl e \<Rightarrow> setStatus (message e) s1
                          | Inr shown \<Rightarrow>
                              setCampaign (\<lambda>c. c\<lparr>workspace_id := i\<rparr>)
                                (setStatus (''Workspace created: '' @ shown) s1))))
      in ([rq], s2))"

definition submitProspect ::
  "engine \<Rightarrow> backend \<Rightarrow> string option \<Rightarrow> app_state \<Rightarrow> request list \<times> app_state" where
  "submitProspect eng be env s =
     (let s1 = setStatus ''Adding prospect...'' s;
          (rq, res) = post be env ''/prospects'' (prospect_json (prospect s));
          s2 = (case res of
                  Inl e \<Rightarrow> setStatus (message e) s1
                | Inr r \<Rightarrow>
                    (case dot_id r of
                       Inl e \<Rightarrow> setStatus (message e) s1
                     | Inr i \<Rightarrow>
                         (case to_string eng i of
                            Inl e \<Rightarrow> setStatus (message e) s1
                          | Inr shown \<Rightarrow> setStatus (''Prospect added: '' @ shown) s1)))
      in ([rq], s2))"

definition generateEmail :: "backend \<Rightarrow> string option \<Rightarrow> app_state \<Rightarrow> request list \<times> app_state" where
  "generateEmail be env s =
     (let s1 = setStatus ''Generating email...'' (setLoadingGen True s);
          (rq, res) = post be env ''/generate'' (gen_json (gen s));
          s2 = (case res of
                  Inl e \<Rightarrow> setStatus (message e) s1
                | Inr r \<Rightarrow> setStatus ''Generated!'' (setPreview r s1))
      in ([rq], setLoadingGen False s2))"

definition submitCampaign ::
  "engine \<Rightarrow> backend \<Rightarrow> string option \<Rightarrow> app_state \<Rightarrow> request list \<times> app_state" where
  "submitCampaign eng be env s =
     (let s1 = setStatus ''Creating campaign...'' s;
          (rq, res) = post be env ''/campaigns'' (campaign_json (campaign s))
      in (case res of
            Inl e \<Rightarrow> ([rq], setStatus (message e) s1)
          | Inr r \<Rightarrow>
              (case dot_id r of
                 Inl e \<Rightarrow> ([rq], setStatus (message e) s1)
               | Inr i \<Rightarrow>
                   (case to_string eng i of
                      Inl e \<Rightarrow> ([rq], setStatus (message e) s1)
                    | Inr shown \<Rightarrow>
                        (let (rqs, s2) =
                               loadCampaigns be env (setStatus (''Campaign created: '' @ shown) s1)
                         in (rq # rqs, s2))))))"

definition trackEvent :: "backend \<Rightarrow> string option \<Rightarrow> string \<Rightarrow> app_state \<Rightarrow> request list \<times> app_state" where
  "trackEvent be env type s =
     (let (rq, res) =
            post be env ''/events''
              (Obj [(''type'', JStr type), (''properties'', Obj [(''page'', JStr ''dashboard'')])]);
          s1 = (case res of
                  Inl e \<Rightarrow> setStatus (message e) s
                | Inr r \<Rightarrow> setStatus (''Tracked '' @ type) s)
      in ([rq], s1))"

section \<open>Sample backends and engines\<close>

text \<open>
  Backends for the concrete runs below: one that answers every request with status 500
  and the body text \<open>boom\<close>, one that answers a \<^verbatim>\<open>POST\<close> with status 201 and a JSON object
  holding the given \<^verbatim>\<open>id\<close> and a \<^verbatim>\<open>GET\<close> with status 503, and one whose \<^verbatim>\<open>fetch\<close> rejects.
\<close>

definition answers_500 :: backend where
  "answers_500 = (\<lambda>rq. Resolved \<lparr>http_status = 500, body_text = Some ''boom'',
                                   body_json = Inl (SyntaxError ''Unexpected token'')\<rparr>)"

definition created :: "jsval \<Rightarrow> response" where
  "created i = \<lparr>http_status = 201, body_text = None, body_json = Inr (Obj [(''id'', i)])\<rparr>"

definition answers_created :: "jsval \<Rightarrow> backend" where
  "answers_created i =
     (\<lambda>rq. if http_method rq = ''GET''
           then Resolved \<lparr>http_status = 503, body_text = Some ''down'',
                          body_json = Inl (SyntaxError ''Unexpected token'')\<rparr>
           else Resolved (created i))"

definition rejects :: backend where
  "rejects = (\<lambda>rq. Rejected (TypeError ''Failed to fetch''))"

text \<open>An engine that has the resources to convert every value, and is otherwise any engine.\<close>

definition with_resources :: "engine \<Rightarrow> engine" where
  "with_resources eng = eng\<lparr>resource_error := (\<lambda>v. None)\<rparr>"

section \<open>Exact sums\<close>

lemma pow2_pos: "0 < pow2 e"
  by (simp add: pow2_def)

lemma is_doubleI:
  assumes "- 1074 \<le> e" and "e \<le> 971" and "\<bar>m\<bar> < 2 ^ 53"
  shows "is_double (rat_of_int m * pow2 e)"
proof -
  have nz: "pow2 e \<noteq> 0"
    using pow2_pos [of e] by simp
  have q: "rat_of_int m * pow2 e / pow2 e = rat_of_int m"
    using nz by simp
  have small: "\<bar>rat_of_int m\<bar> < 2 ^ 53"
  proof -
    have "rat_of_int \<bar>m\<bar> < rat_of_int (2 ^ 53)"
      using assms(3) by (simp only: of_int_less_iff)
    then show ?thesis by simp
  qed
  have "rat_of_int \<lfloor>rat_of_int m * pow2 e / pow2 e\<rfloor> = rat_of_int m * pow2 e / pow2 e
      \<and> \<bar>rat_of_int m * pow2 e / pow2 e\<bar> < 2 ^ 53"
    unfolding q using small by simp
  moreover have "e \<in> {- 1074 .. 971}"
    using assms(1,2) by simp
  ultimately show ?thesis
    unfolding is_double_def by blast
qed

lemma is_double_of_int:
  assumes "\<bar>n\<bar> < 2 ^ 53"
  shows "is_double (rat_of_int n)"
  using is_doubleI [of 0 n] assms by (simp add: pow2_def)

lemma is_double_2: "is_double 2"
  using is_double_of_int [of 2] by simp

lemma is_double_4: "is_double 4"
  using is_double_of_int [of 4] by simp

lemma is_double_7_halves: "is_double (7 / 2)"
  using is_doubleI [of "- 1" 7] by (simp add: pow2_def)

text \<open>
  An odd integer above \<open>2^53\<close> is no double: with a positive exponent the number would
  be even, and with another one its mantissa would be the number itself or more.
\<close>

lemma odd_above_2_53_not_double:
  assumes "odd n" and "2 ^ 53 < n"
  shows "\<not> is_double (rat_of_int n)"
proof
  assume "is_double (rat_of_int n)"
  then obtain e where fl: "rat_of_int \<lfloor>rat_of_int n / pow2 e\<rfloor> = rat_of_int n / pow2 e"
    and small: "\<bar>rat_of_int n / pow2 e\<bar> < 2 ^ 53"
    unfolding is_double_def by blast
  show False
  proof (cases "0 < e")
    case True
    then have p: "pow2 e = 2 ^ nat e"
      by (simp add: pow2_def)
    define k where "k = \<lfloor>rat_of_int n / pow2 e\<rfloor>"
    have "rat_of_int k = rat_of_int n / 2 ^ nat e"
      using fl unfolding k_def p .
    then have "rat_of_int k * 2 ^ nat e = rat_of_int n / 2 ^ nat e * 2 ^ nat e"
      by (simp only:)
    also have "\<dots> = rat_of_int n"
      by simp
    finally have "rat_of_int (k * 2 ^ nat e) = rat_of_int n"
      by simp
    then have "k * 2 ^ nat e = n"
      by (simp only: of_int_eq_iff)
    moreover have "even (k * 2 ^ nat e)"
      using True by simp
    ultimately show False
      using assms(1) by simp
  next
    case False
    then have p: "pow2 e = 1 / 2 ^ nat (- e)"
      by (simp add: pow2_def)
    have quot: "rat_of_int n / pow2 e = rat_of_int n * 2 ^ nat (- e)"
      unfolding p by simp
    have big: "(2::rat) ^ 53 < rat_of_int n"
    proof -
      have "rat_of_int (2 ^ 53) < rat_of_int n"
        using assms(2) by (simp only: of_int_less_iff)
      then show ?thesis by simp
    qed
    have ge1: "(1::rat) \<le> 2 ^ nat (- e)"
      by simp
    have pos: "0 \<le> rat_of_int n"
      using big by simp
    have "rat_of_int n * 1 \<le> rat_of_int n * 2 ^ nat (- e)"
      using ge1 pos by (rule mult_left_mono)
    then have "rat_of_int n \<le> rat_of_int n / pow2 e"
      unfolding quot by simp
    with big have "2 ^ 53 < rat_of_int n / pow2 e"
      by (rule less_le_trans)
    then have "2 ^ 53 < \<bar>rat_of_int n / pow2 e\<bar>"
      using abs_ge_self [of "rat_of_int n / pow2 e"] by (rule less_le_trans)
    with small show False
      by (rule order.asym)
  qed
qed

lemma not_double_9007199254740993: "\<not> is_double 9007199254740993"
  using odd_above_2_53_not_double [of 9007199254740993] by simp

section \<open>Properties of the sequence editor\<close>

lemma filter_index_enumerate:
  "map snd (filter (\<lambda>(i, _). int i \<noteq> idx) (enumerate n xs)) =
     (if idx < int n then xs
      else take (nat idx - n) xs @ drop (Suc (nat idx - n)) xs)"
proof (induction xs arbitrary: n)
  case Nil
  show ?case by simp
next
  case (Cons x xs)
  show ?case
  proof (cases "idx < int n")
    case True
    then show ?thesis using Cons [of "Suc n"] by simp
  next
    case False
    show ?thesis
    proof (cases "idx = int n")
      case True
      then show ?thesis using Cons [of "Suc n"] by simp
    next
      case neq: False
      with False have gt: "int n < idx" by simp
      then have suc: "nat idx - n = Suc (nat idx - Suc n)" by linarith
      from gt have "\<not> idx < int (Suc n)" by simp
      then show ?thesis using Cons [of "Suc n"] neq suc by simp
    qed
  qed
qed

lemma removed_sequence:
  "sequence (campaign (removeStep idx s)) =
     (if idx < 0 then sequence (campaign s)
      else take (nat idx) (sequence (campaign s)) @ drop (Suc (nat idx)) (sequence (campaign s)))"
  by (simp add: removeStep_def setCampaign_def filter_index_enumerate)

text \<open>
  C1, as amended. In every engine and every page state, \<^verbatim>\<open>addStep\<close> appends exactly one
  step, with empty subject and body, and changes nothing else. On the empty sequence,
  where the added step is the first one, its day offset is 2: the default 0 that
  \<^verbatim>\<open>?? 0\<close> supplies for the missing last step, plus 2. Otherwise its day offset is the
  JavaScript sum of the last step's offset and 2. When the last offset is a finite number
  \<open>q\<close>, that sum is exactly \<open>q + 2\<close> if \<open>q + 2\<close> is a double, as every integer of magnitude
  below \<open>2^53\<close> is, and the double to which the engine rounds \<open>q + 2\<close> if it is not. The
  only step of the initial state has day offset 0.
\<close>

theorem addStep_appends:
  "addStep eng s =
     s\<lparr>campaign := (campaign s)\<lparr>sequence := sequence (campaign s) @
       [\<lparr>day_offset = (if sequence (campaign s) = [] then Fin 2
                       else js_add eng (day_offset (last (sequence (campaign s)))) (Fin 2)),
         subject = '''', body = ''''\<rparr>]\<rparr>\<rparr>
   \<and> length (sequence (campaign (addStep eng s))) = length (sequence (campaign s)) + 1
   \<and> (\<forall>q. sequence (campaign s) \<noteq> [] \<and> day_offset (last (sequence (campaign s))) = Fin q \<and>
          is_double (q + 2) \<longrightarrow>
          day_offset (last (sequence (campaign (addStep eng s)))) = Fin (q + 2))
   \<and> (\<forall>q. sequence (campaign s) \<noteq> [] \<and> day_offset (last (sequence (campaign s))) = Fin q \<and>
          \<not> is_double (q + 2) \<longrightarrow>
          day_offset (last (sequence (campaign (addStep eng s)))) = round_double eng (q + 2))
   \<and> (\<forall>n. \<bar>n\<bar> < 2 ^ 53 \<longrightarrow> is_double (rat_of_int n))
   \<and> sequence (campaign initial) = [\<lparr>day_offset = Fin 0, subject = '''', body = ''''\<rparr>]"
proof -
  have whole: "addStep eng s =
     s\<lparr>campaign := (campaign s)\<lparr>sequence := sequence (campaign s) @
       [\<lparr>day_offset = (if sequence (campaign s) = [] then Fin 2
                       else js_add eng (day_offset (last (sequence (campaign s)))) (Fin 2)),
         subject = '''', body = ''''\<rparr>]\<rparr>\<rparr>"
    by (simp add: addStep_def setCampaign_def at_last_def is_double_2)
  have len: "length (sequence (campaign (addStep eng s))) = length (sequence (campaign s)) + 1"
    by (simp add: whole)
  have exact: "day_offset (last (sequence (campaign (addStep eng s)))) = Fin (q + 2)"
    if "sequence (campaign s) \<noteq> [] \<and> day_offset (last (sequence (campaign s))) = Fin q \<and>
          is_double (q + 2)" for q
    using that by (simp add: whole)
  have rounded: "day_offset (last (sequence (campaign (addStep eng s)))) = round_double eng (q + 2)"
    if "sequence (campaign s) \<noteq> [] \<and> day_offset (last (sequence (campaign s))) = Fin q \<and>
          \<not> is_double (q + 2)" for q
    using that by (simp add: whole)
  have ints: "\<forall>n. \<bar>n\<bar> < 2 ^ 53 \<longrightarrow> is_double (rat_of_int n)"
    using is_double_of_int by blast
  have init: "sequence (campaign initial) = [\<lparr>day_offset = Fin 0, subject = '''', body = ''''\<rparr>]"
    by (simp add: initial_def)
  from whole len exact rounded ints init show ?thesis
    by blast
qed

theorem addStep_appends_witness:
  "\<forall>eng.
     sequence (campaign (addStep eng initial)) =
       [\<lparr>day_offset = Fin 0, subject = '''', body = ''''\<rparr>,
        \<lparr>day_offset = Fin 2, subject = '''', body = ''''\<rparr>]
     \<and> day_offset (last (sequence (campaign (addStep eng
          (setCampaign (\<lambda>c. c\<lparr>sequence := [\<lparr>day_offset = Fin (3 / 2), subject = ''Hi'',
                                             body = ''Hello''\<rparr>]\<rparr>) initial))))) =
       Fin (7 / 2)
     \<and> day_offset (last (sequence (campaign (addStep eng
          (setCampaign (\<lambda>c. c\<lparr>sequence := [\<lparr>day_offset = Fin 9007199254740991, subject = '''',
                                             body = ''''\<rparr>]\<rparr>) initial))))) =
       round_double eng 9007199254740993"
proof (intro allI conjI)
  fix eng
  have s0: "sequence (campaign initial) \<noteq> [] \<and>
      day_offset (last (sequence (campaign initial))) = Fin 0 \<and> is_double (0 + 2)"
    by (simp add: initial_def is_double_2)
  from addStep_appends [of eng initial]
  have "sequence (campaign (addStep eng initial)) =
      sequence (campaign initial) @
        [\<lparr>day_offset = js_add eng (day_offset (last (sequence (campaign initial)))) (Fin 2),
          subject = '''', body = ''''\<rparr>]"
    by (simp add: initial_def)
  then show "sequence (campaign (addStep eng initial)) =
       [\<lparr>day_offset = Fin 0, subject = '''', body = ''''\<rparr>,
        \<lparr>day_offset = Fin 2, subject = '''', body = ''''\<rparr>]"
    by (simp add: initial_def is_double_2)
next
  fix eng
  let ?s = "setCampaign (\<lambda>c. c\<lparr>sequence := [\<lparr>day_offset = Fin (3 / 2), subject = ''Hi'',
                                             body = ''Hello''\<rparr>]\<rparr>) initial"
  have h: "sequence (campaign ?s) \<noteq> [] \<and>
      day_offset (last (sequence (campaign ?s))) = Fin (3 / 2) \<and> is_double (3 / 2 + 2)"
    using is_double_7_halves by (simp add: setCampaign_def)
  from addStep_appends [of eng ?s] h
  have "day_offset (last (sequence (campaign (addStep eng ?s)))) = Fin (3 / 2 + 2)"
    by blast
  then show "day_offset (last (sequence (campaign (addStep eng ?s)))) = Fin (7 / 2)"
    by simp
next
  fix eng
  let ?s = "setCampaign (\<lambda>c. c\<lparr>sequence := [\<lparr>day_offset = Fin 9007199254740991, subject = '''',
                                             body = ''''\<rparr>]\<rparr>) initial"
  have h: "sequence (campaign ?s) \<noteq> [] \<and>
      day_offset (last (sequence (campaign ?s))) = Fin 9007199254740991 \<and>
      \<not> is_double (9007199254740991 + 2)"
    using not_double_9007199254740993 by (simp add: setCampaign_def)
  from addStep_appends [of eng ?s] h
  have "day_offset (last (sequence (campaign (addStep eng ?s)))) =
      round_double eng (9007199254740991 + 2)"
    by blast
  then show "day_offset (last (sequence (campaign (addStep eng ?s)))) =
      round_double eng 9007199254740993"
    by simp
qed

text \<open>
  C1 as the claim states it fails, in every engine. Once the only step of the initial
  state is removed the sequence is empty; the step that \<^verbatim>\<open>addStep\<close> then adds is the first
  step of the sequence, and its day offset is 2, not 0.
\<close>

theorem addStep_first_step_counterexample:
  "\<forall>eng.
     sequence (campaign (removeStep 0 initial)) = [] \<and>
     sequence (campaign (addStep eng (removeStep 0 initial))) =
       [\<lparr>day_offset = Fin 2, subject = '''', body = ''''\<rparr>] \<and>
     day_offset (hd (sequence (campaign (addStep eng (removeStep 0 initial))))) \<noteq> Fin 0"
  by (simp add: addStep_def removeStep_def setCampaign_def at_last_def initial_def is_double_2)

text \<open>
  C2. For an index inside the sequence, \<^verbatim>\<open>removeStep\<close> keeps the steps before the index and
  the steps after it, in their order, and changes nothing else in the page state. The
  sequence is one step shorter; a step before the index keeps its position, a step after
  it moves one position down.
\<close>

theorem removeStep_valid_index:
  assumes "0 \<le> idx" and "idx < int (length (sequence (campaign s)))"
  shows "removeStep idx s =
           s\<lparr>campaign := (campaign s)\<lparr>sequence :=
               take (nat idx) (sequence (campaign s)) @
               drop (Suc (nat idx)) (sequence (campaign s))\<rparr>\<rparr>
         \<and> length (sequence (campaign (removeStep idx s))) + 1 = length (sequence (campaign s))
         \<and> (\<forall>j. j < nat idx \<longrightarrow>
               sequence (campaign (removeStep idx s)) ! j = sequence (campaign s) ! j)
         \<and> (\<forall>j. nat idx \<le> j \<and> j + 1 < length (sequence (campaign s)) \<longrightarrow>
               sequence (campaign (removeStep idx s)) ! j = sequence (campaign s) ! (j + 1))"
proof -
  let ?xs = "sequence (campaign s)"
  have seq: "sequence (campaign (removeStep idx s)) = take (nat idx) ?xs @ drop (Suc (nat idx)) ?xs"
    using assms(1) by (simp add: removed_sequence)
  have i: "nat idx < length ?xs"
    using assms by linarith
  have whole: "removeStep idx s =
      s\<lparr>campaign := (campaign s)\<lparr>sequence := take (nat idx) ?xs @ drop (Suc (nat idx)) ?xs\<rparr>\<rparr>"
    using assms(1) by (simp add: removeStep_def setCampaign_def filter_index_enumerate)
  have len: "length (sequence (campaign (removeStep idx s))) + 1 = length ?xs"
    using i by (simp add: seq)
  have before: "\<forall>j. j < nat idx \<longrightarrow> sequence (campaign (removeStep idx s)) ! j = ?xs ! j"
    using i by (simp add: seq nth_append)
  have after: "\<forall>j. nat idx \<le> j \<and> j + 1 < length ?xs \<longrightarrow>
      sequence (campaign (removeStep idx s)) ! j = ?xs ! (j + 1)"
  proof (intro allI impI)
    fix j
    assume j: "nat idx \<le> j \<and> j + 1 < length ?xs"
    then have "Suc (nat idx) + (j - nat idx) = j + 1" by simp
    then show "sequence (campaign (removeStep idx s)) ! j = ?xs ! (j + 1)"
      using i j by (simp add: seq nth_append min_def)
  qed
  from whole len before after show ?thesis by blast
qed

theorem removeStep_valid_index_witness:
  "\<forall>eng.
     sequence (campaign (removeStep 1 (addStep eng (addStep eng initial)))) =
       [\<lparr>day_offset = Fin 0, subject = '''', body = ''''\<rparr>,
        \<lparr>day_offset = Fin 4, subject = '''', body = ''''\<rparr>]
     \<and> length (sequence (campaign (removeStep 1 (addStep eng (addStep eng initial))))) + 1 =
         length (sequence (campaign (addStep eng (addStep eng initial))))"
proof
  fix eng
  have xs: "sequence (campaign (addStep eng (addStep eng initial))) =
      [\<lparr>day_offset = Fin 0, subject = '''', body = ''''\<rparr>,
       \<lparr>day_offset = Fin 2, subject = '''', body = ''''\<rparr>,
       \<lparr>day_offset = Fin 4, subject = '''', body = ''''\<rparr>]"
    by (simp add: addStep_def setCampaign_def at_last_def initial_def is_double_2 is_double_4)
  have lo: "(0::int) \<le> 1" by simp
  have hi: "(1::int) < int (length (sequence (campaign (addStep eng (addStep eng initial)))))"
    by (simp add: xs)
  from removeStep_valid_index [OF lo hi]
  show "sequence (campaign (removeStep 1 (addStep eng (addStep eng initial)))) =
       [\<lparr>day_offset = Fin 0, subject = '''', body = ''''\<rparr>,
        \<lparr>day_offset = Fin 4, subject = '''', body = ''''\<rparr>]
     \<and> length (sequence (campaign (removeStep 1 (addStep eng (addStep eng initial))))) + 1 =
         length (sequence (campaign (addStep eng (addStep eng initial))))"
    by (simp add: xs)
qed

text \<open>
  C8. On the empty sequence \<^verbatim>\<open>addStep\<close> yields, in every engine, the single step with day
  offset 2 and empty subject and body, and changes nothing else in the page state.
\<close>

theorem addStep_on_empty:
  assumes "sequence (campaign s) = []"
  shows "sequence (campaign (addStep eng s)) =
           [\<lparr>day_offset = Fin 2, subject = '''', body = ''''\<rparr>]
       \<and> addStep eng s =
           s\<lparr>campaign := (campaign s)\<lparr>sequence :=
               [\<lparr>day_offset = Fin 2, subject = '''', body = ''''\<rparr>]\<rparr>\<rparr>"
  using assms by (simp add: addStep_def setCampaign_def at_last_def is_double_2)

theorem addStep_on_empty_witness:
  "\<forall>eng.
     sequence (campaign (removeStep 0 initial)) = [] \<and>
     sequence (campaign (addStep eng (removeStep 0 initial))) =
       [\<lparr>day_offset = Fin 2, subject = '''', body = ''''\<rparr>]"
proof
  fix eng
  have e: "sequence (campaign (removeStep 0 initial)) = []"
    by (simp add: removeStep_def setCampaign_def initial_def)
  from e addStep_on_empty [OF e, of eng]
  show "sequence (campaign (removeStep 0 initial)) = [] \<and>
     sequence (campaign (addStep eng (removeStep 0 initial))) =
       [\<lparr>day_offset = Fin 2, subject = '''', body = ''''\<rparr>]"
    by simp
qed

text \<open>
  C9. With a negative index, or one at or past the length, the filter keeps every step:
  \<^verbatim>\<open>removeStep\<close> returns the page state as it was. The operation is a total function of
  the state: neither \<^verbatim>\<open>filter\<close> nor the comparison of the indices can throw.
\<close>

theorem removeStep_out_of_range:
  assumes "idx < 0 \<or> int (length (sequence (campaign s))) \<le> idx"
  shows "removeStep idx s = s"
proof -
  have "sequence (campaign (removeStep idx s)) = sequence (campaign s)"
    using assms by (auto simp add: removed_sequence)
  then have "map snd (filter (\<lambda>(i, _). int i \<noteq> idx) (enumerate 0 (sequence (campaign s)))) =
      sequence (campaign s)"
    by (simp add: removeStep_def setCampaign_def)
  then show ?thesis
    by (simp add: removeStep_def setCampaign_def)
qed

theorem removeStep_out_of_range_witness:
  "removeStep (- 1) initial = initial \<and> removeStep 1 initial = initial \<and>
   length (sequence (campaign initial)) = 1"
proof -
  have len: "length (sequence (campaign initial)) = 1"
    by (simp add: initial_def)
  have neg: "(- 1 :: int) < 0 \<or> int (length (sequence (campaign initial))) \<le> - 1"
    by simp
  have big: "(1 :: int) < 0 \<or> int (length (sequence (campaign initial))) \<le> 1"
    by (simp add: len)
  from removeStep_out_of_range [OF neg] removeStep_out_of_range [OF big] len
  show ?thesis by simp
qed

section \<open>Properties of the backend client\<close>

lemmas setters = setStatus_def setPreview_def setLoadingGen_def setCampaign_def
  setCampaigns_def setLoadingCampaigns_def

lemma fst_get: "fst (get be env path) = get_request env path"
  by (simp add: get_def Let_def)

lemma fst_post: "fst (post be env path b) = post_request env path b"
  by (simp add: post_def Let_def)

lemma url_get_request: "url (get_request env path) = baseUrl env @ path"
  by (simp add: get_request_def)

lemma url_post_request: "url (post_request env path b) = baseUrl env @ path"
  by (simp add: post_request_def)

lemma get_non_2xx:
  assumes "be (get_request env path) = Resolved r" and "\<not> ok r"
  shows "snd (get be env path) =
    Inl (Error (''GET '' @ path @ '' failed: '' @ show_nat (http_status r)))"
  using assms by (simp add: get_def)

lemma post_non_2xx:
  assumes "be (post_request env path b) = Resolved r" and "\<not> ok r"
  shows "snd (post be env path b) =
    Inl (Error (''POST '' @ path @ '' failed: '' @ show_nat (http_status r) @ '' '' @
      (case body_text r of None \<Rightarrow> [] | Some t \<Rightarrow> t)))"
  using assms by (simp add: post_def)

lemma post_non_2xx_has_body:
  assumes "be (post_request env path b) = Resolved r" and "\<not> ok r" and "body_text r = Some t"
  shows "\<exists>m. snd (post be env path b) = Inl (Error m) \<and> sublist t m"
proof -
  have "sublist t (''POST '' @ path @ '' failed: '' @ show_nat (http_status r) @ '' '' @ t)"
    by (metis append_assoc sublist_append_leftI)
  then show ?thesis
    using post_non_2xx [where be = be, OF assms(1,2)] assms(3) by (simp only: option.case) blast
qed

lemma sublist_last_of_four: "sublist c (a @ p @ b @ c)"
  by (metis append_assoc sublist_append_leftI)

lemma sublist_fourth_of_six: "sublist c (a @ p @ b @ c @ d @ m)"
  by (metis append_assoc sublist_appendI)

lemma requests_loadCampaigns:
  "fst (loadCampaigns be env s) = [get_request env ''/campaigns'']"
  by (simp add: loadCampaigns_def split_def Let_def fst_get)

lemma requests_submitWorkspace:
  "fst (submitWorkspace eng be env s) = [post_request env ''/workspaces'' (ws_json (ws s))]"
  by (simp add: submitWorkspace_def split_def Let_def fst_post)

lemma requests_submitProspect:
  "fst (submitProspect eng be env s) = [post_request env ''/prospects'' (prospect_json (prospect s))]"
  by (simp add: submitProspect_def split_def Let_def fst_post)

lemma requests_generateEmail:
  "fst (generateEmail be env s) = [post_request env ''/generate'' (gen_json (gen s))]"
  by (simp add: generateEmail_def split_def Let_def fst_post)

lemma requests_trackEvent:
  "fst (trackEvent be env t s) =
     [post_request env ''/events''
        (Obj [(''type'', JStr t), (''properties'', Obj [(''page'', JStr ''dashboard'')])])]"
  by (simp add: trackEvent_def split_def Let_def fst_post)

lemma requests_submitCampaign:
  "fst (submitCampaign eng be env s) = [post_request env ''/campaigns'' (campaign_json (campaign s))]
   \<or> fst (submitCampaign eng be env s) =
       [post_request env ''/campaigns'' (campaign_json (campaign s)),
        get_request env ''/campaigns'']"
  by (simp add: submitCampaign_def split_def Let_def fst_post requests_loadCampaigns
      split: sum.splits)

text \<open>
  C5, at a failing input. A \<^verbatim>\<open>GET\<close> of \<^verbatim>\<open>/campaigns\<close> is answered with status 500 and the
  body text \<open>boom\<close>. \<^verbatim>\<open>get\<close> throws, but the message of its error is
  \<open>GET /campaigns failed: 500\<close>: the body text is not in it. \<^verbatim>\<open>post\<close>, answered the same
  way, throws an error whose message ends with the body text.
\<close>

theorem get_error_message_lacks_body:
  "snd (get answers_500 None ''/campaigns'') = Inl (Error ''GET /campaigns failed: 500'')
   \<and> \<not> sublist ''boom'' ''GET /campaigns failed: 500''
   \<and> snd (post answers_500 None ''/campaigns'' Null) =
       Inl (Error ''POST /campaigns failed: 500 boom'')"
  by (simp add: get_def post_def answers_500_def ok_def show_nat.simps sublist_code)

text \<open>
  C6, as amended. The base URL is the environment value when that value is a non-empty
  string, and \<open>http://localhost:8000\<close> when it is not defined or is the empty string. The
  URL of every request is the base URL followed by the path: for \<^verbatim>\<open>get\<close> and \<^verbatim>\<open>post\<close>,
  and so for every request that an operation of the page sends.
\<close>

theorem baseUrl_configured_or_default:
  "(\<forall>v. v \<noteq> [] \<longrightarrow> baseUrl (Some v) = v)
   \<and> baseUrl (Some []) = ''http://localhost:8000''
   \<and> baseUrl None = ''http://localhost:8000''
   \<and> url (fst (get be env path)) = baseUrl env @ path
   \<and> url (fst (post be env path b)) = baseUrl env @ path
   \<and> (\<forall>rq \<in> set (fst (loadCampaigns be env s) @ fst (submitWorkspace eng be env s) @
                   fst (submitProspect eng be env s) @ fst (generateEmail be env s) @
                   fst (submitCampaign eng be env s) @ fst (trackEvent be env t s)).
         prefix (baseUrl env) (url rq))"
proof -
  have sc: "\<forall>rq \<in> set (fst (submitCampaign eng be env s)). prefix (baseUrl env) (url rq)"
    using requests_submitCampaign [of eng be env s]
    by (auto simp add: url_get_request url_post_request)
  have rest: "\<forall>rq \<in> set (fst (loadCampaigns be env s) @ fst (submitWorkspace eng be env s) @
                   fst (submitProspect eng be env s) @ fst (generateEmail be env s) @
                   fst (trackEvent be env t s)).
         prefix (baseUrl env) (url rq)"
    by (simp add: requests_loadCampaigns requests_submitWorkspace requests_submitProspect
        requests_generateEmail requests_trackEvent url_get_request url_post_request)
  have base: "(\<forall>v. v \<noteq> [] \<longrightarrow> baseUrl (Some v) = v)
   \<and> baseUrl (Some []) = ''http://localhost:8000''
   \<and> baseUrl None = ''http://localhost:8000''"
    by (simp add: baseUrl_def)
  have urls: "url (fst (get be env path)) = baseUrl env @ path
   \<and> url (fst (post be env path b)) = baseUrl env @ path"
    by (simp add: fst_get fst_post url_get_request url_post_request)
  from sc rest have "\<forall>rq \<in> set (fst (loadCampaigns be env s) @ fst (submitWorkspace eng be env s) @
                   fst (submitProspect eng be env s) @ fst (generateEmail be env s) @
                   fst (submitCampaign eng be env s) @ fst (trackEvent be env t s)).
         prefix (baseUrl env) (url rq)"
    by auto
  with base urls show ?thesis by blast
qed

theorem baseUrl_configured_or_default_witness:
  "\<forall>eng.
     baseUrl (Some ''https://api.example.com'') = ''https://api.example.com''
     \<and> url (fst (get rejects (Some ''https://api.example.com'') ''/campaigns'')) =
         ''https://api.example.com/campaigns''
     \<and> map url (fst (submitCampaign (with_resources eng) (answers_created (JStr ''c1''))
                       (Some ''https://api.example.com'') initial)) =
         [''https://api.example.com/campaigns'', ''https://api.example.com/campaigns'']"
proof
  fix eng
  have ne: "''https://api.example.com'' \<noteq> []"
    by simp
  note T = baseUrl_configured_or_default
    [where eng = eng and be = rejects and env = "Some ''https://api.example.com''"
       and path = "''/campaigns''" and b = Null and s = initial and t = "''email_sent''"]
  from T ne have 1: "baseUrl (Some ''https://api.example.com'') = ''https://api.example.com''"
    by blast
  from T have "url (fst (get rejects (Some ''https://api.example.com'') ''/campaigns'')) =
       baseUrl (Some ''https://api.example.com'') @ ''/campaigns''"
    by blast
  with 1 have 2: "url (fst (get rejects (Some ''https://api.example.com'') ''/campaigns'')) =
       ''https://api.example.com/campaigns''"
    by simp
  have 3: "map url (fst (submitCampaign (with_resources eng) (answers_created (JStr ''c1''))
                     (Some ''https://api.example.com'') initial)) =
       [''https://api.example.com/campaigns'', ''https://api.example.com/campaigns'']"
    by (simp add: submitCampaign_def loadCampaigns_def post_def get_def post_request_def
        get_request_def answers_created_def created_def ok_def baseUrl_def split_def Let_def
        to_string_def with_resources_def)
  from 1 2 3
  show "baseUrl (Some ''https://api.example.com'') = ''https://api.example.com''
     \<and> url (fst (get rejects (Some ''https://api.example.com'') ''/campaigns'')) =
         ''https://api.example.com/campaigns''
     \<and> map url (fst (submitCampaign (with_resources eng) (answers_created (JStr ''c1''))
                       (Some ''https://api.example.com'') initial)) =
         [''https://api.example.com/campaigns'', ''https://api.example.com/campaigns'']"
    by blast
qed

text \<open>
  C6 as the claim states it fails. The environment value can be set to the empty string
  (a line \<^verbatim>\<open>VITE_BACKEND_URL=\<close> in an env file); the base URL is then the local address and
  not the value that was set.
\<close>

theorem baseUrl_empty_value_counterexample:
  "baseUrl (Some '''') = ''http://localhost:8000'' \<and> baseUrl (Some '''') \<noteq> ''''"
  by (simp add: baseUrl_def)

text \<open>
  C7. For every event type string, \<^verbatim>\<open>trackEvent\<close> sends exactly one request: a \<^verbatim>\<open>POST\<close>
  to the base URL followed by \<^verbatim>\<open>/events\<close>, declared as JSON, whose document is an object
  with exactly the two members \<^verbatim>\<open>type\<close>, the given string, and \<^verbatim>\<open>properties\<close>, an object.
\<close>

theorem trackEvent_posts_event:
  "fst (trackEvent be env t s) =
     [\<lparr>http_method = ''POST'', url = baseUrl env @ ''/events'',
       headers = [(''Content-Type'', ''application/json'')],
       payload = Some (Obj [(''type'', JStr t),
                            (''properties'', Obj [(''page'', JStr ''dashboard'')])])\<rparr>]"
  by (simp add: trackEvent_def post_def post_request_def split_def Let_def)

section \<open>Properties of the operations\<close>

lemma loadCampaigns_failed:
  assumes "snd (get be env ''/campaigns'') = Inl e"
  shows "snd (loadCampaigns be env s) = s\<lparr>status := message e, loadingCampaigns := False\<rparr>"
  using assms by (simp add: loadCampaigns_def split_def setters)

lemma submitWorkspace_failed:
  assumes "snd (post be env ''/workspaces'' (ws_json (ws s))) = Inl e"
  shows "snd (submitWorkspace eng be env s) = s\<lparr>status := message e\<rparr>"
  using assms by (simp add: submitWorkspace_def split_def setters)

lemma submitProspect_failed:
  assumes "snd (post be env ''/prospects'' (prospect_json (prospect s))) = Inl e"
  shows "snd (submitProspect eng be env s) = s\<lparr>status := message e\<rparr>"
  using assms by (simp add: submitProspect_def split_def setters)

lemma generateEmail_failed:
  assumes "snd (post be env ''/generate'' (gen_json (gen s))) = Inl e"
  shows "snd (generateEmail be env s) = s\<lparr>status := message e, loadingGen := False\<rparr>"
  using assms by (simp add: generateEmail_def split_def setters)

lemma submitCampaign_failed:
  assumes "snd (post be env ''/campaigns'' (campaign_json (campaign s))) = Inl e"
  shows "snd (submitCampaign eng be env s) = s\<lparr>status := message e\<rparr>"
  using assms by (simp add: submitCampaign_def split_def setters)

lemma trackEvent_failed:
  assumes "snd (post be env ''/events''
      (Obj [(''type'', JStr t), (''properties'', Obj [(''page'', JStr ''dashboard'')])])) = Inl e"
  shows "snd (trackEvent be env t s) = s\<lparr>status := message e\<rparr>"
  using assms by (simp add: trackEvent_def split_def setters)

lemma submitCampaign_reloads:
  assumes "snd (post be env ''/campaigns'' (campaign_json (campaign s))) = Inr v"
    and "dot_id v = Inr i" and "to_string eng i = Inr shown"
  shows "snd (submitCampaign eng be env s) =
    snd (loadCampaigns be env (s\<lparr>status := ''Campaign created: '' @ shown\<rparr>))"
  using assms by (simp add: submitCampaign_def split_def Let_def setters)

lemma loadCampaigns_failed_status:
  assumes "snd (get be env ''/campaigns'') = Inl e"
  shows "status (snd (loadCampaigns be env s)) = message e"
  by (simp add: loadCampaigns_failed [OF assms])

lemma submitWorkspace_failed_status:
  assumes "snd (post be env ''/workspaces'' (ws_json (ws s))) = Inl e"
  shows "status (snd (submitWorkspace eng be env s)) = message e"
  by (simp add: submitWorkspace_failed [OF assms])

lemma submitProspect_failed_status:
  assumes "snd (post be env ''/prospects'' (prospect_json (prospect s))) = Inl e"
  shows "status (snd (submitProspect eng be env s)) = message e"
  by (simp add: submitProspect_failed [OF assms])

lemma generateEmail_failed_status:
  assumes "snd (post be env ''/generate'' (gen_json (gen s))) = Inl e"
  shows "status (snd (generateEmail be env s)) = message e"
  by (simp add: generateEmail_failed [OF assms])

lemma submitCampaign_failed_status:
  assumes "snd (post be env ''/campaigns'' (campaign_json (campaign s))) = Inl e"
  shows "status (snd (submitCampaign eng be env s)) = message e"
  by (simp add: submitCampaign_failed [OF assms])

lemma trackEvent_failed_status:
  assumes "snd (post be env ''/events''
      (Obj [(''type'', JStr t), (''properties'', Obj [(''page'', JStr ''dashboard'')])])) = Inl e"
  shows "status (snd (trackEvent be env t s)) = message e"
  by (simp add: trackEvent_failed [OF assms])

text \<open>
  C3. Let a response \<open>r\<close> have a status outside 200 to 299. Whenever the request of an
  operation is answered with \<open>r\<close>, the status message that the operation leaves contains
  the decimal digits of the status of \<open>r\<close>. This holds for the \<^verbatim>\<open>GET\<close> of
  \<^verbatim>\<open>loadCampaigns\<close>, for the \<^verbatim>\<open>POST\<close> of \<^verbatim>\<open>submitWorkspace\<close>, \<^verbatim>\<open>submitProspect\<close>,
  \<^verbatim>\<open>generateEmail\<close>, \<^verbatim>\<open>submitCampaign\<close> and \<^verbatim>\<open>trackEvent\<close>, and for the \<^verbatim>\<open>GET\<close> with
  which \<^verbatim>\<open>submitCampaign\<close> reloads the list after its \<^verbatim>\<open>POST\<close> went through.
\<close>

theorem non_2xx_status_shows_code:
  assumes "\<not> ok r"
  shows
    "(be (get_request env ''/campaigns'') = Resolved r \<longrightarrow>
        sublist (show_nat (http_status r)) (status (snd (loadCampaigns be env s))))
   \<and> (be (post_request env ''/workspaces'' (ws_json (ws s))) = Resolved r \<longrightarrow>
        sublist (show_nat (http_status r)) (status (snd (submitWorkspace eng be env s))))
   \<and> (be (post_request env ''/prospects'' (prospect_json (prospect s))) = Resolved r \<longrightarrow>
        sublist (show_nat (http_status r)) (status (snd (submitProspect eng be env s))))
   \<and> (be (post_request env ''/generate'' (gen_json (gen s))) = Resolved r \<longrightarrow>
        sublist (show_nat (http_status r)) (status (snd (generateEmail be env s))))
   \<and> (be (post_request env ''/campaigns'' (campaign_json (campaign s))) = Resolved r \<longrightarrow>
        sublist (show_nat (http_status r)) (status (snd (submitCampaign eng be env s))))
   \<and> (be (post_request env ''/events''
          (Obj [(''type'', JStr t), (''properties'', Obj [(''page'', JStr ''dashboard'')])])) =
        Resolved r \<longrightarrow>
        sublist (show_nat (http_status r)) (status (snd (trackEvent be env t s))))
   \<and> (snd (post be env ''/campaigns'' (campaign_json (campaign s))) = Inr v \<and>
      dot_id v = Inr i \<and> to_string eng i = Inr shown \<and>
      be (get_request env ''/campaigns'') = Resolved r \<longrightarrow>
        sublist (show_nat (http_status r)) (status (snd (submitCampaign eng be env s))))"
proof -
  let ?code = "show_nat (http_status r)"
  have g: "sublist ?code (message (Error (''GET '' @ p @ '' failed: '' @ ?code)))" for p
    unfolding message.simps by (rule sublist_last_of_four)
  have p: "sublist ?code (message (Error (''POST '' @ p @ '' failed: '' @ ?code @ '' '' @ m)))"
    for p m
    unfolding message.simps by (rule sublist_fourth_of_six)
  have c1: "sublist ?code (status (snd (loadCampaigns be env s')))"
    if "be (get_request env ''/campaigns'') = Resolved r" for s'
    by (simp only: loadCampaigns_failed_status [OF get_non_2xx [where be = be, OF that assms]] g)
  have c2: "sublist ?code (status (snd (submitWorkspace eng be env s)))"
    if "be (post_request env ''/workspaces'' (ws_json (ws s))) = Resolved r"
    by (simp only: submitWorkspace_failed_status [OF post_non_2xx [where be = be, OF that assms]] p)
  have c3: "sublist ?code (status (snd (submitProspect eng be env s)))"
    if "be (post_request env ''/prospects'' (prospect_json (prospect s))) = Resolved r"
    by (simp only: submitProspect_failed_status [OF post_non_2xx [where be = be, OF that assms]] p)
  have c4: "sublist ?code (status (snd (generateEmail be env s)))"
    if "be (post_request env ''/generate'' (gen_json (gen s))) = Resolved r"
    by (simp only: generateEmail_failed_status [OF post_non_2xx [where be = be, OF that assms]] p)
  have c5: "sublist ?code (status (snd (submitCampaign eng be env s)))"
    if "be (post_request env ''/campaigns'' (campaign_json (campaign s))) = Resolved r"
    by (simp only: submitCampaign_failed_status [OF post_non_2xx [where be = be, OF that assms]] p)
  have c6: "sublist ?code (status (snd (trackEvent be env t s)))"
    if "be (post_request env ''/events''
          (Obj [(''type'', JStr t), (''properties'', Obj [(''page'', JStr ''dashboard'')])])) =
        Resolved r"
    by (simp only: trackEvent_failed_status [OF post_non_2xx [where be = be, OF that assms]] p)
  have c7: "sublist ?code (status (snd (submitCampaign eng be env s)))"
    if "snd (post be env ''/campaigns'' (campaign_json (campaign s))) = Inr v"
      and "dot_id v = Inr i" and "to_string eng i = Inr shown"
      and "be (get_request env ''/campaigns'') = Resolved r"
    by (simp only: submitCampaign_reloads [OF that(1,2,3)] c1 [OF that(4)])
  from c1 c2 c3 c4 c5 c6 c7 show ?thesis by blast
qed

theorem non_2xx_status_shows_code_witness:
  "\<forall>eng.
     sublist ''500'' (status (snd (loadCampaigns answers_500 None initial)))
     \<and> sublist ''500'' (status (snd (submitWorkspace eng answers_500 None initial)))
     \<and> sublist ''500'' (status (snd (submitProspect eng answers_500 None initial)))
     \<and> sublist ''500'' (status (snd (generateEmail answers_500 None initial)))
     \<and> sublist ''500'' (status (snd (submitCampaign eng answers_500 None initial)))
     \<and> sublist ''500'' (status (snd (trackEvent answers_500 None ''email_sent'' initial)))
     \<and> sublist ''503'' (status (snd (submitCampaign (with_resources eng)
                                      (answers_created (JStr ''c1'')) None initial)))"
proof
  fix eng
  define r where "r = \<lparr>http_status = 500, body_text = Some ''boom'',
    body_json = (Inl (SyntaxError ''Unexpected token'') :: js_error + jsval)\<rparr>"
  define r' where "r' = \<lparr>http_status = 503, body_text = Some ''down'',
    body_json = (Inl (SyntaxError ''Unexpected token'') :: js_error + jsval)\<rparr>"
  have nok: "\<not> ok r" and nok': "\<not> ok r'"
    by (simp_all add: ok_def r_def r'_def)
  have a: "answers_500 rq = Resolved r" for rq
    by (simp add: answers_500_def r_def)
  have code: "show_nat (http_status r) = ''500''" and code': "show_nat (http_status r') = ''503''"
    by (simp_all add: r_def r'_def show_nat.simps)
  have posted: "snd (post (answers_created (JStr ''c1'')) None ''/campaigns''
      (campaign_json (campaign initial))) = Inr (Obj [(''id'', JStr ''c1'')])"
    by (simp add: post_def post_request_def answers_created_def created_def ok_def)
  have i: "dot_id (Obj [(''id'', JStr ''c1'')]) = Inr (JStr ''c1'')"
    by simp
  have printed: "to_string (with_resources eng) (JStr ''c1'') = Inr ''c1''"
    by (simp add: to_string_def with_resources_def)
  have got: "answers_created (JStr ''c1'') (get_request None ''/campaigns'') = Resolved r'"
    by (simp add: answers_created_def get_request_def r'_def)
  have first: "sublist ''500'' (status (snd (loadCampaigns answers_500 None initial)))
   \<and> sublist ''500'' (status (snd (submitWorkspace eng answers_500 None initial)))
   \<and> sublist ''500'' (status (snd (submitProspect eng answers_500 None initial)))
   \<and> sublist ''500'' (status (snd (generateEmail answers_500 None initial)))
   \<and> sublist ''500'' (status (snd (submitCampaign eng answers_500 None initial)))
   \<and> sublist ''500'' (status (snd (trackEvent answers_500 None ''email_sent'' initial)))"
    using non_2xx_status_shows_code [OF nok, where eng = eng and be = answers_500
        and env = None and s = initial and t = "''email_sent''"]
    by (simp only: a code simp_thms)
  have second:
    "sublist ''503'' (status (snd (submitCampaign (with_resources eng)
                                    (answers_created (JStr ''c1'')) None initial)))"
    using non_2xx_status_shows_code [OF nok', where eng = "with_resources eng"
        and be = "answers_created (JStr ''c1'')"
        and env = None and s = initial and v = "Obj [(''id'', JStr ''c1'')]"
        and i = "JStr ''c1''" and shown = "''c1''"]
    by (simp only: posted i printed got code' simp_thms)
  from first second
  show "sublist ''500'' (status (snd (loadCampaigns answers_500 None initial)))
     \<and> sublist ''500'' (status (snd (submitWorkspace eng answers_500 None initial)))
     \<and> sublist ''500'' (status (snd (submitProspect eng answers_500 None initial)))
     \<and> sublist ''500'' (status (snd (generateEmail answers_500 None initial)))
     \<and> sublist ''500'' (status (snd (submitCampaign eng answers_500 None initial)))
     \<and> sublist ''500'' (status (snd (trackEvent answers_500 None ''email_sent'' initial)))
     \<and> sublist ''503'' (status (snd (submitCampaign (with_resources eng)
                                      (answers_created (JStr ''c1'')) None initial)))"
    by simp
qed

lemma convert_plain:
  "plain v \<longrightarrow> (\<exists>shown. convert eng v = Inr shown)"
  "list_all plain xs \<longrightarrow> (\<exists>shown. join_elems eng xs = Inr shown)"
proof (induction eng v and eng xs rule: convert_join_elems.induct)
  case (9 eng x xs)
  show ?case
  proof
    assume all: "list_all plain (x # xs)"
    have "\<exists>a. (if x = Undefined \<or> x = Null then Inr [] else convert eng x) = Inr a"
    proof (cases "x = Undefined \<or> x = Null")
      case True
      then show ?thesis by auto
    next
      case False
      then show ?thesis using 9(1) all by auto
    qed
    then obtain a where a: "(if x = Undefined \<or> x = Null then Inr [] else convert eng x) = Inr a"
      by blast
    show "\<exists>shown. join_elems eng (x # xs) = Inr shown"
    proof (cases "xs = []")
      case True
      then show ?thesis using a by (simp only: join_elems.simps) simp
    next
      case False
      then obtain b where b: "join_elems eng xs = Inr b"
        using 9(2) [OF a False] all by auto
      show ?thesis
        using a b False by (simp only: join_elems.simps) simp
    qed
  qed
qed simp_all

lemma to_string_plain:
  assumes "resource_error eng v = None" and "plain v"
  shows "\<exists>shown. to_string eng v = Inr shown"
  using assms convert_plain(1) [of v eng] by (simp add: to_string_def)

lemma submitWorkspace_answered:
  assumes "be (post_request env ''/workspaces'' (ws_json (ws s))) = Resolved r"
    and "ok r"
    and "body_json r = Inr (Obj kvs)"
    and "map_of kvs ''id'' = Some v"
  shows "snd (submitWorkspace eng be env s) =
    (case to_string eng v of
       Inl e \<Rightarrow> s\<lparr>status := message e\<rparr>
     | Inr shown \<Rightarrow> s\<lparr>status := ''Workspace created: '' @ shown,
                      campaign := (campaign s)\<lparr>workspace_id := v\<rparr>\<rparr>)"
proof -
  have "snd (post be env ''/workspaces'' (ws_json (ws s))) = Inr (Obj kvs)"
    using assms(1,2,3) by (simp add: post_def)
  moreover have "dot_id (Obj kvs) = Inr v"
    using assms(4) by simp
  ultimately show ?thesis
    by (simp add: submitWorkspace_def split_def setters split: sum.splits)
qed

text \<open>
  C4, as amended. Let the \<^verbatim>\<open>POST\<close> of \<^verbatim>\<open>/workspaces\<close> be answered with a status from 200
  to 299 and a JSON object that has an \<^verbatim>\<open>id\<close> member. If the template literal of the
  status message converts the value of that member to text without throwing, then
  \<^verbatim>\<open>submitWorkspace\<close> sets the \<^verbatim>\<open>workspace_id\<close> of the campaign to that value, reports it in
  the status message, and changes nothing else. The conversion does not throw whenever the
  engine has the resources for the value and the value is a string, a number, a boolean,
  \<^verbatim>\<open>null\<close>, an object without a member named \<^verbatim>\<open>toString\<close>, or an array of such values.
  If the conversion throws, the status message is the message of the error and
  \<^verbatim>\<open>workspace_id\<close> is left as it was.
\<close>

theorem submitWorkspace_sets_workspace_id:
  assumes "be (post_request env ''/workspaces'' (ws_json (ws s))) = Resolved r"
    and "ok r"
    and "body_json r = Inr (Obj kvs)"
    and "map_of kvs ''id'' = Some v"
  shows "(\<forall>shown. to_string eng v = Inr shown \<longrightarrow>
            workspace_id (campaign (snd (submitWorkspace eng be env s))) = v \<and>
            snd (submitWorkspace eng be env s) =
              s\<lparr>status := ''Workspace created: '' @ shown,
                campaign := (campaign s)\<lparr>workspace_id := v\<rparr>\<rparr>)
       \<and> (resource_error eng v = None \<and> plain v \<longrightarrow>
            workspace_id (campaign (snd (submitWorkspace eng be env s))) = v)
       \<and> (\<forall>e. to_string eng v = Inl e \<longrightarrow>
            snd (submitWorkspace eng be env s) = s\<lparr>status := message e\<rparr>)"
proof -
  note run = submitWorkspace_answered [where be = be and eng = eng, OF assms]
  have printed: "workspace_id (campaign (snd (submitWorkspace eng be env s))) = v \<and>
            snd (submitWorkspace eng be env s) =
              s\<lparr>status := ''Workspace created: '' @ shown,
                campaign := (campaign s)\<lparr>workspace_id := v\<rparr>\<rparr>"
    if "to_string eng v = Inr shown" for shown
    using run that by simp
  have enumerated: "workspace_id (campaign (snd (submitWorkspace eng be env s))) = v"
    if "resource_error eng v = None \<and> plain v"
  proof -
    from that obtain shown where "to_string eng v = Inr shown"
      using to_string_plain [of eng v] by blast
    then show ?thesis using printed by blast
  qed
  have thrown: "snd (submitWorkspace eng be env s) = s\<lparr>status := message e\<rparr>"
    if "to_string eng v = Inl e" for e
    using run that by simp
  from printed enumerated thrown show ?thesis
    by blast
qed

theorem submitWorkspace_sets_workspace_id_witness:
  "\<forall>eng.
     workspace_id (campaign (snd (submitWorkspace (with_resources eng)
        (answers_created (JStr ''w42'')) None initial))) = JStr ''w42''
     \<and> status (snd (submitWorkspace (with_resources eng)
        (answers_created (JStr ''w42'')) None initial)) = ''Workspace created: w42''
     \<and> workspace_id (campaign (snd (submitWorkspace (with_resources eng)
        (answers_created (Arr [JStr ''a'', Null, Obj [(''n'', JBool True)]])) None initial))) =
        Arr [JStr ''a'', Null, Obj [(''n'', JBool True)]]"
proof (intro allI conjI)
  fix eng
  have a: "answers_created (JStr ''w42'') (post_request None ''/workspaces'' (ws_json (ws initial))) =
      Resolved (created (JStr ''w42''))"
    by (simp add: answers_created_def post_request_def)
  have b: "ok (created (JStr ''w42''))"
    by (simp add: ok_def created_def)
  have c: "body_json (created (JStr ''w42'')) = Inr (Obj [(''id'', JStr ''w42'')])"
    by (simp add: created_def)
  have d: "map_of [(''id'', JStr ''w42'')] ''id'' = Some (JStr ''w42'')"
    by simp
  have e: "to_string (with_resources eng) (JStr ''w42'') = Inr ''w42''"
    by (simp add: to_string_def with_resources_def)
  note T = submitWorkspace_sets_workspace_id
    [where be = "answers_created (JStr ''w42'')" and eng = "with_resources eng", OF a b c d]
  from T e
  show "workspace_id (campaign (snd (submitWorkspace (with_resources eng)
        (answers_created (JStr ''w42'')) None initial))) = JStr ''w42''"
    by blast
  from T e
  have "snd (submitWorkspace (with_resources eng) (answers_created (JStr ''w42'')) None initial) =
      initial\<lparr>status := ''Workspace created: '' @ ''w42'',
        campaign := (campaign initial)\<lparr>workspace_id := JStr ''w42''\<rparr>\<rparr>"
    by blast
  then show "status (snd (submitWorkspace (with_resources eng)
        (answers_created (JStr ''w42'')) None initial)) = ''Workspace created: w42''"
    by simp
next
  fix eng
  let ?v = "Arr [JStr ''a'', Null, Obj [(''n'', JBool True)]]"
  have a: "answers_created ?v (post_request None ''/workspaces'' (ws_json (ws initial))) =
      Resolved (created ?v)"
    by (simp add: answers_created_def post_request_def)
  have b: "ok (created ?v)"
    by (simp add: ok_def created_def)
  have c: "body_json (created ?v) = Inr (Obj [(''id'', ?v)])"
    by (simp add: created_def)
  have d: "map_of [(''id'', ?v)] ''id'' = Some ?v"
    by simp
  have e: "resource_error (with_resources eng) ?v = None \<and> plain ?v"
    by (simp add: with_resources_def)
  from submitWorkspace_sets_workspace_id
    [where be = "answers_created ?v" and eng = "with_resources eng", OF a b c d] e
  show "workspace_id (campaign (snd (submitWorkspace (with_resources eng)
        (answers_created ?v) None initial))) = ?v"
    by blast
qed

text \<open>
  C4 as the claim states it fails, in every engine. The \<^verbatim>\<open>POST\<close> is answered with status
  201 and the JSON document \<^verbatim>\<open>{"id": {"toString": null}}\<close>. The response is successful and
  carries an \<^verbatim>\<open>id\<close> member, but the template literal of the status message, which runs
  before \<^verbatim>\<open>setCampaign\<close>, cannot convert that value to a string and throws;
  \<^verbatim>\<open>workspace_id\<close> keeps the empty string of the initial state.
\<close>

theorem submitWorkspace_unprintable_id_counterexample:
  "\<forall>eng.
     ok (created (Obj [(''toString'', Null)]))
     \<and> body_json (created (Obj [(''toString'', Null)])) =
         Inr (Obj [(''id'', Obj [(''toString'', Null)])])
     \<and> workspace_id (campaign (snd (submitWorkspace eng
           (answers_created (Obj [(''toString'', Null)])) None initial))) = JStr ''''
     \<and> workspace_id (campaign (snd (submitWorkspace eng
           (answers_created (Obj [(''toString'', Null)])) None initial))) \<noteq>
         Obj [(''toString'', Null)]"
  by (simp add: submitWorkspace_def post_def post_request_def answers_created_def created_def
      ok_def split_def setters initial_def to_string_def split: option.splits)

text \<open>
  C10. When the \<^verbatim>\<open>POST\<close> of \<^verbatim>\<open>/generate\<close> throws, whatever the reason, \<^verbatim>\<open>generateEmail\<close>
  leaves the preview as it was. The page state it leaves is the one it started from with
  the error's message as the status message and the loading flag reset by the \<^verbatim>\<open>finally\<close>
  block; when the flag was not set at the start, as whenever the Generate button is
  enabled, the status message is the only change.
\<close>

theorem generateEmail_failure_keeps_preview:
  assumes "snd (post be env ''/generate'' (gen_json (gen s))) = Inl e"
  shows "preview (snd (generateEmail be env s)) = preview s
       \<and> snd (generateEmail be env s) = s\<lparr>status := message e, loadingGen := False\<rparr>
       \<and> (\<not> loadingGen s \<longrightarrow> snd (generateEmail be env s) = s\<lparr>status := message e\<rparr>)"
  by (simp add: generateEmail_failed [OF assms])

theorem generateEmail_failure_keeps_preview_witness:
  "preview (snd (generateEmail answers_500 None (initial\<lparr>preview := JStr ''draft''\<rparr>))) =
     JStr ''draft''
   \<and> snd (generateEmail answers_500 None (initial\<lparr>preview := JStr ''draft''\<rparr>)) =
     initial\<lparr>preview := JStr ''draft'', status := ''POST /generate failed: 500 boom''\<rparr>"
proof -
  have f: "snd (post answers_500 None ''/generate''
      (gen_json (gen (initial\<lparr>preview := JStr ''draft''\<rparr>)))) =
      Inl (Error ''POST /generate failed: 500 boom'')"
    by (simp add: post_def answers_500_def ok_def show_nat.simps)
  have idle: "\<not> loadingGen (initial\<lparr>preview := JStr ''draft''\<rparr>)"
    by (simp add: initial_def)
  from generateEmail_failure_keeps_preview [OF f] idle show ?thesis
    by simp
qed

end
